theory Spec2Isabelle
  imports Complex_Main "HOL-Library.Log_Nat"
begin

section \<open>Python values used by app.py\<close>

subsection \<open>Strings\<close>

text \<open>
  A Python \<open>str\<close> is a sequence of Unicode code points; slicing and \<open>len\<close> count code
  points. A string is therefore a list of code points, and an ASCII literal of the source
  is written \<open>pystr_of ''...''\<close>.
\<close>

type_synonym pystr = "nat list"

definition pystr_of :: "string \<Rightarrow> pystr" where
  "pystr_of s = map of_char s"

subsection \<open>Exceptions\<close>

text \<open>
  An exception is its class and the text \<open>str(e)\<close>. The classes the program can meet are
  kept apart only as far as the code tells them apart: \<open>except Exception\<close> (line 92)
  catches every class derived from \<open>Exception\<close>; \<open>NonException\<close> stands for the classes
  that derive from \<open>BaseException\<close> only (\<open>KeyboardInterrupt\<close>, \<open>SystemExit\<close>, ...).
\<close>

datatype exc_class =
  TypeError | ValueError | IndexError | OverflowError | OtherException | NonException

datatype py_exc = PyExc exc_class pystr

fun is_Exception :: "py_exc \<Rightarrow> bool" where
  "is_Exception (PyExc c msg) = (c \<noteq> NonException)"

fun exc_str :: "py_exc \<Rightarrow> pystr" where
  "exc_str (PyExc c msg) = msg"

subsection \<open>Floats\<close>

text \<open>
  A Python \<open>float\<close> is an IEEE 754 binary64 value: a sign and a magnitude, an infinity or
  a NaN. The magnitude is kept as the exact rational it denotes, so \<open>Fin True 0\<close> is
  \<open>-0.0\<close>. Every operation rounds its exact result to the nearest binary64 value, ties
  to even.
\<close>

datatype float64 = Fin bool rat | Inf bool | NaN

definition pow2 :: "int \<Rightarrow> rat" where
  "pow2 n = (if 0 \<le> n then 2 ^ nat n else 1 / 2 ^ nat (- n))"

text \<open>\<open>ilog2 a\<close> is the binary exponent of a positive \<open>a\<close>: \<open>2 ^ ilog2 a \<le> a < 2 ^ (ilog2 a + 1)\<close>.\<close>

definition ilog2 :: "rat \<Rightarrow> int" where
  "ilog2 a =
     (let d = bitlen (fst (quotient_of a)) - bitlen (snd (quotient_of a))
      in if pow2 d \<le> a then d else d - 1)"

definition round_half_even :: "rat \<Rightarrow> int" where
  "round_half_even x =
     (let f = \<lfloor>x\<rfloor>; r = x - of_int f
      in if r < 1 / 2 then f
         else if 1 / 2 < r then f + 1
         else if even f then f else f + 1)"

text \<open>
  The binary64 magnitude nearest to a non-negative rational: 53 significant bits, the
  exponent not below that of the subnormals, \<open>None\<close> when the rounded value is beyond the
  largest finite one.
\<close>

definition round_mag :: "rat \<Rightarrow> rat option" where
  "round_mag a =
     (if a = 0 then Some 0
      else let u = pow2 (max (ilog2 a) (- 1022) - 52);
               v = of_int (round_half_even (a / u)) * u
           in if pow2 1024 \<le> v then None else Some v)"

text \<open>A decimal literal of the source, such as \<open>0.8\<close>: the nearest binary64 value.\<close>

definition dbl :: "rat \<Rightarrow> float64" where
  "dbl r = (case round_mag \<bar>r\<bar> of None \<Rightarrow> Inf (r < 0) | Some v \<Rightarrow> Fin (r < 0) v)"

text \<open>\<open>x * y\<close> on floats.\<close>

fun fmul :: "float64 \<Rightarrow> float64 \<Rightarrow> float64" where
  "fmul NaN y = NaN"
| "fmul x NaN = NaN"
| "fmul (Inf s) (Inf t) = Inf (s \<noteq> t)"
| "fmul (Inf s) (Fin t b) = (if b = 0 then NaN else Inf (s \<noteq> t))"
| "fmul (Fin s a) (Inf t) = (if a = 0 then NaN else Inf (s \<noteq> t))"
| "fmul (Fin s a) (Fin t b) =
     (case round_mag \<bar>a * b\<bar> of None \<Rightarrow> Inf (s \<noteq> t) | Some v \<Rightarrow> Fin (s \<noteq> t) v)"

text \<open>
  \<open>round(x, 2)\<close> on a float. An infinity or a NaN is returned as it is. A finite \<open>x\<close> is
  converted to the decimal with two digits after the point that is nearest to its exact
  value (ties to even), and that decimal is converted back to the nearest float;
  Python raises \<open>OverflowError\<close> when the conversion back overflows.
\<close>

fun round_2 :: "float64 \<Rightarrow> py_exc + float64" where
  "round_2 (Fin s a) =
     (case round_mag (of_int (round_half_even (\<bar>a\<bar> * 100)) / 100) of
        None \<Rightarrow> Inl (PyExc OverflowError (pystr_of ''rounded value too large to represent''))
      | Some v \<Rightarrow> Inr (Fin s v))"
| "round_2 x = Inr x"

subsection \<open>String operations\<close>

definition is_ascii :: "pystr \<Rightarrow> bool" where
  "is_ascii s = list_all (\<lambda>c. c < 128) s"

definition ascii_lower :: "nat \<Rightarrow> nat" where
  "ascii_lower c = (if 65 \<le> c \<and> c \<le> 90 then c + 32 else c)"

definition ascii_upper :: "nat \<Rightarrow> nat" where
  "ascii_upper c = (if 97 \<le> c \<and> c \<le> 122 then c - 32 else c)"

text \<open>The code points that \<open>str.strip()\<close> removes: those for which \<open>str.isspace\<close> holds.\<close>

definition is_space :: "nat \<Rightarrow> bool" where
  "is_space c =
     ((9 \<le> c \<and> c \<le> 13) \<or> (28 \<le> c \<and> c \<le> 32) \<or> c = 133 \<or> c = 160 \<or> c = 5760
      \<or> (8192 \<le> c \<and> c \<le> 8202) \<or> c = 8232 \<or> c = 8233 \<or> c = 8239 \<or> c = 8287
      \<or> c = 12288)"

definition py_strip :: "pystr \<Rightarrow> pystr" where
  "py_strip s = rev (dropWhile is_space (rev (dropWhile is_space s)))"

text \<open>\<open>str(n)\<close> for an integer, and \<open>str(xs)\<close> for a list of integers.\<close>

fun digits :: "nat \<Rightarrow> pystr" where
  "digits n = (if n < 10 then [48 + n] else digits (n div 10) @ [48 + n mod 10])"

definition str_int :: "int \<Rightarrow> pystr" where
  "str_int i = (if i < 0 then 45 # digits (nat (- i)) else digits (nat i))"

fun join :: "pystr \<Rightarrow> pystr list \<Rightarrow> pystr" where
  "join sep [] = []"
| "join sep [x] = x"
| "join sep (x # y # ys) = x @ sep @ join sep (y # ys)"

definition str_int_list :: "int list \<Rightarrow> pystr" where
  "str_int_list xs = pystr_of ''['' @ join (pystr_of '', '') (map str_int xs) @ pystr_of '']''"

section \<open>The data of app.py\<close>

text \<open>A treatment record: one entry of \<open>treatment_db\<close> (lines 15 to 21).\<close>

record treatment =
  methods :: "pystr list"
  efficiency :: "int list"
  details :: pystr
  cost_per_m3 :: "float64 list"
  sludge_kg_per_m3 :: "float64 list"

text \<open>
  What lines 49 to 54 set on the figure: the size, the arguments of \<open>ax.bar\<close>, the label of
  the y axis, the title, the limits of the y axis and the rotation of the x ticks.
\<close>

record figure =
  figsize :: "int \<times> int"
  bar_x :: "pystr list"
  bar_height :: "int list"
  bar_color :: "pystr list"
  ylabel :: pystr
  title :: pystr
  ylim :: "int \<times> int"
  xticks_rotation :: int

text \<open>
  The table of lines 70 to 78, one field per column, in the order of the columns:
  Method, Efficiency (\%), Cost (\$/m3), Daily Cost (\$), Sludge (kg/m3), Sludge (kg/day).
\<close>

record dataframe =
  Method :: "pystr list"
  Efficiency_pct :: "int list"
  Cost_per_m3 :: "float64 list"
  Daily_Cost :: "float64 list"
  Sludge_kg_per_m3 :: "float64 list"
  Sludge_kg_per_day :: "float64 list"

text \<open>
  The request of lines 85 to 90; a message is its role and its content. A response is
  the list of \<open>choices[i].message.content\<close>, each \<open>None\<close> or a string.
\<close>

record chat_request =
  model :: pystr
  messages :: "(pystr \<times> pystr) list"
  temperature :: float64
  max_tokens :: int

type_synonym chat_response = "pystr option list"

section \<open>The world outside app.py\<close>

text \<open>
  A page of a parsed document is the outcome of \<open>page.extract_text()\<close>: it raises, or it
  returns \<open>None\<close> or a string.
\<close>

type_synonym page = "py_exc + pystr option"

text \<open>The calls into third-party code that the handlers make, in the order made.\<close>

datatype ext_call =
  PdfReader_call pystr
  | extract_text_call nat
  | chat_create_call chat_request

text \<open>
  The behaviour of what app.py calls and does not define: the PDF parser, the remote
  chat completion, and the parts of the Python runtime that depend on the Unicode
  database (\<open>str.lower\<close> and \<open>str.capitalize\<close> on a string that is not ASCII) or on the
  shortest decimal representation of a float (\<open>str\<close> of a float), and the text of the
  error that numpy raises for two sequences of incompatible lengths.
\<close>

record env =
  PdfReader :: "pystr \<Rightarrow> py_exc + page list"
  chat_create :: "chat_request \<Rightarrow> py_exc + chat_response"
  unicode_lower :: "pystr \<Rightarrow> pystr"
  unicode_capitalize :: "pystr \<Rightarrow> pystr"
  float_str :: "float64 \<Rightarrow> pystr"
  shape_mismatch_text :: "nat \<Rightarrow> nat \<Rightarrow> pystr"

text \<open>
  The state of the process: the module-level dictionary \<open>treatment_db\<close>, the figures that
  pyplot has created and keeps (none is ever closed), and the calls made so far.
\<close>

record state =
  treatment_db :: "pystr \<rightharpoonup> treatment"
  figures :: "figure list"
  ext_calls :: "ext_call list"

section \<open>treatment\_db (lines 14 to 36)\<close>

definition lead :: treatment where
  "lead =
     \<lparr>methods = [pystr_of ''Chemical Precipitation'', pystr_of ''Ion Exchange'',
                 pystr_of ''Membrane Filtration''],
      efficiency = [85, 90, 95],
      details = pystr_of ''Lead can be effectively treated using lime precipitation, ion-exchange resins, or RO membranes.'',
      cost_per_m3 = [dbl (8 / 10), dbl (15 / 10), dbl (22 / 10)],
      sludge_kg_per_m3 = [dbl (12 / 100), dbl (5 / 100), dbl (2 / 100)]\<rparr>"

text \<open>The first method of arsenic is written with an en dash, the code point 8211.\<close>

definition arsenic :: treatment where
  "arsenic =
     \<lparr>methods = [pystr_of ''Coagulation'' @ [8211] @ pystr_of ''Filtration'',
                 pystr_of ''Adsorption'', pystr_of ''Reverse Osmosis''],
      efficiency = [80, 88, 96],
      details = pystr_of ''Arsenic removal requires multi-barrier approaches including iron-based adsorbents and RO systems.'',
      cost_per_m3 = [dbl (9 / 10), dbl (12 / 10), dbl (25 / 10)],
      sludge_kg_per_m3 = [dbl (15 / 100), dbl (7 / 100), dbl (3 / 100)]\<rparr>"

definition chromium :: treatment where
  "chromium =
     \<lparr>methods = [pystr_of ''Reduction + Precipitation'',
                 pystr_of ''Activated Carbon Adsorption'',
                 pystr_of ''Electrochemical Treatment''],
      efficiency = [82, 87, 93],
      details = pystr_of ''Chromium (VI) is reduced to Cr (III) before precipitation, or handled with advanced adsorption/EC.'',
      cost_per_m3 = [dbl 1, dbl (14 / 10), dbl 2],
      sludge_kg_per_m3 = [dbl (18 / 100), dbl (6 / 100), dbl (4 / 100)]\<rparr>"

text \<open>The dictionary as the module creates it, and the state of a process that has just started.\<close>

definition initial_treatment_db :: "pystr \<rightharpoonup> treatment" where
  "initial_treatment_db =
     map_of [(pystr_of ''lead'', lead), (pystr_of ''arsenic'', arsenic),
             (pystr_of ''chromium'', chromium)]"

definition initial_state :: state where
  "initial_state = \<lparr>treatment_db = initial_treatment_db, figures = [], ext_calls = []\<rparr>"

section \<open>recommend\_treatment (lines 41 to 80)\<close>

text \<open>
  \<open>str.lower\<close> and \<open>str.capitalize\<close>: on an ASCII string only the letters A to Z and a to z
  change; any other string is mapped as the Unicode database says.
\<close>

definition py_lower :: "env \<Rightarrow> pystr \<Rightarrow> pystr" where
  "py_lower ev s = (if is_ascii s then map ascii_lower s else unicode_lower ev s)"

definition py_capitalize :: "env \<Rightarrow> pystr \<Rightarrow> pystr" where
  "py_capitalize ev s =
     (if is_ascii s
      then (case s of [] \<Rightarrow> [] | c # cs \<Rightarrow> ascii_upper c # map ascii_lower cs)
      else unicode_capitalize ev s)"

text \<open>Line 42: \<open>pollutant.lower().strip()\<close>.\<close>

definition normalize :: "env \<Rightarrow> pystr \<Rightarrow> pystr" where
  "normalize ev pollutant = py_strip (py_lower ev pollutant)"

text \<open>Line 44: the message for a pollutant that is not a key; 10060 is the cross mark.\<close>

definition no_data_message :: "pystr \<Rightarrow> pystr" where
  "no_data_message pollutant =
     [10060] @ pystr_of '' No data for '' @ [39] @ pollutant @ [39]
     @ pystr_of ''. Try lead, arsenic, chromium.''"

text \<open>
  Line 49, a new figure, and line 50, \<open>ax.bar\<close>: the bar positions and the heights must
  have the same length, unless one of them has length 1.
\<close>

definition new_figure :: "int \<times> int \<Rightarrow> figure" where
  "new_figure sz =
     \<lparr>figsize = sz, bar_x = [], bar_height = [], bar_color = [], ylabel = [],
      title = [], ylim = (0, 1), xticks_rotation = 0\<rparr>"

definition ax_bar :: "env \<Rightarrow> pystr list \<Rightarrow> int list \<Rightarrow> pystr list \<Rightarrow> figure \<Rightarrow> py_exc + figure" where
  "ax_bar ev x height color fig =
     (if length x = length height \<or> length x = 1 \<or> length height = 1
      then Inr (fig\<lparr>bar_x := x, bar_height := height, bar_color := color\<rparr>)
      else Inl (PyExc ValueError (shape_mismatch_text ev (length x) (length height))))"

text \<open>\<open>f"{flow_rate}"\<close> for the value of the numeric field: \<open>None\<close> or a float.\<close>

fun format_flow :: "env \<Rightarrow> float64 option \<Rightarrow> pystr" where
  "format_flow ev None = pystr_of ''None''"
| "format_flow ev (Some x) = float_str ev x"

text \<open>Lines 57 to 67; 128167 is the droplet and 179 the superscript three.\<close>

definition summary_text :: "env \<Rightarrow> pystr \<Rightarrow> treatment \<Rightarrow> float64 option \<Rightarrow> pystr" where
  \<open>summary_text ev pollutant rec flow_rate =
     pystr_of ''\<newline><div style="background:#f5f5f5; padding:15px; border-radius:10px; color:#2C3E50">\<newline><h3>''
     @ [128167] @ pystr_of '' Recommended Treatment for '' @ py_capitalize ev pollutant
     @ pystr_of ''</h3>\<newline><ul>\<newline><li><b>Methods:</b> ''
     @ join (pystr_of '', '') (methods rec)
     @ pystr_of ''</li>\<newline><li><b>Efficiency (%):</b> '' @ str_int_list (efficiency rec)
     @ pystr_of ''</li>\<newline><li><b>Technical Note:</b> '' @ details rec
     @ pystr_of ''</li>\<newline><li><b>Flow Rate Consideration:</b> For ''
     @ format_flow ev flow_rate @ pystr_of '' m'' @ [179]
     @ pystr_of ''/day, costs and sludge must be considered.</li>\<newline></ul>\<newline></div>\<newline>''\<close>

text \<open>
  The comprehensions of lines 74 and 76, \<open>[round(c * flow_rate, 2) for c in xs]\<close>. With
  \<open>flow_rate\<close> \<open>None\<close> the first multiplication raises \<open>TypeError\<close>.
\<close>

fun scaled :: "float64 list \<Rightarrow> float64 option \<Rightarrow> py_exc + float64 list" where
  "scaled [] flow_rate = Inr []"
| "scaled (c # cs) None =
     Inl (PyExc TypeError
           (pystr_of ''unsupported operand type(s) for *: '' @ [39] @ pystr_of ''float''
            @ [39] @ pystr_of '' and '' @ [39] @ pystr_of ''NoneType'' @ [39]))"
| "scaled (c # cs) (Some q) =
     (case round_2 (fmul c q) of
        Inl e \<Rightarrow> Inl e
      | Inr r \<Rightarrow> (case scaled cs (Some q) of Inl e \<Rightarrow> Inl e | Inr rs \<Rightarrow> Inr (r # rs)))"

text \<open>Line 78: \<open>pd.DataFrame\<close> of a dictionary of lists wants all lists of one length.\<close>

definition DataFrame :: "pystr list \<Rightarrow> int list \<Rightarrow> float64 list \<Rightarrow> float64 list \<Rightarrow> float64 list \<Rightarrow> float64 list \<Rightarrow> py_exc + dataframe" where
  "DataFrame c1 c2 c3 c4 c5 c6 =
     (if length c2 = length c1 \<and> length c3 = length c1 \<and> length c4 = length c1
         \<and> length c5 = length c1 \<and> length c6 = length c1
      then Inr \<lparr>Method = c1, Efficiency_pct = c2, Cost_per_m3 = c3, Daily_Cost = c4,
                Sludge_kg_per_m3 = c5, Sludge_kg_per_day = c6\<rparr>
      else Inl (PyExc ValueError (pystr_of ''All arrays must be of the same length'')))"

text \<open>Lines 49 to 80, for a pollutant that is a key of the dictionary, with its record.\<close>

definition report :: "env \<Rightarrow> pystr \<Rightarrow> treatment \<Rightarrow> float64 option \<Rightarrow> state \<Rightarrow> (py_exc + pystr \<times> figure option \<times> dataframe option) \<times> state" where
  "report ev pollutant rec flow_rate st =
     (let fig0 = new_figure (5, 3)
      in case ax_bar ev (methods rec) (efficiency rec)
                [pystr_of ''#5DADE2'', pystr_of ''#48C9B0'', pystr_of ''#F5B041''] fig0 of
           Inl e \<Rightarrow> (Inl e, st\<lparr>figures := figures st @ [fig0]\<rparr>)
         | Inr fig1 \<Rightarrow>
             (let fig = fig1\<lparr>ylabel := pystr_of ''Removal Efficiency (%)'',
                             title := pystr_of ''Treatment methods for ''
                                        @ py_capitalize ev pollutant,
                             ylim := (0, 100), xticks_rotation := 20\<rparr>;
                  st' = st\<lparr>figures := figures st @ [fig]\<rparr>;
                  text = summary_text ev pollutant rec flow_rate
              in case scaled (cost_per_m3 rec) flow_rate of
                   Inl e \<Rightarrow> (Inl e, st')
                 | Inr daily_cost \<Rightarrow>
                     (case scaled (sludge_kg_per_m3 rec) flow_rate of
                        Inl e \<Rightarrow> (Inl e, st')
                      | Inr daily_sludge \<Rightarrow>
                          (case DataFrame (methods rec) (efficiency rec) (cost_per_m3 rec)
                                  daily_cost (sludge_kg_per_m3 rec) daily_sludge of
                             Inl e \<Rightarrow> (Inl e, st')
                           | Inr df \<Rightarrow> (Inr (text, Some fig, Some df), st')))))"

definition recommend_treatment :: "env \<Rightarrow> pystr \<Rightarrow> float64 option \<Rightarrow> state \<Rightarrow> (py_exc + pystr \<times> figure option \<times> dataframe option) \<times> state" where
  "recommend_treatment ev pollutant flow_rate st =
     (let pollutant = normalize ev pollutant
      in case treatment_db st pollutant of
           None \<Rightarrow> (Inr (no_data_message pollutant, None, None), st)
         | Some rec \<Rightarrow> report ev pollutant rec flow_rate st)"

section \<open>explain\_recommendation (lines 83 to 93)\<close>

definition explain_request :: "env \<Rightarrow> pystr \<Rightarrow> float64 option \<Rightarrow> chat_request" where
  "explain_request ev pollutant flow_rate =
     \<lparr>model = pystr_of ''llama-3.1-8b-instant'',
      messages =
        [(pystr_of ''user'',
          pystr_of ''Explain in technical detail how to treat '' @ pollutant
          @ pystr_of '' in wastewater with flow rate '' @ format_flow ev flow_rate
          @ pystr_of '' m'' @ [179] @ pystr_of ''/day.'')],
      temperature = dbl (6 / 10),
      max_tokens = 500\<rparr>"

text \<open>
  Line 93, the handler of \<open>except Exception as e\<close>: an exception whose class derives from
  \<open>Exception\<close> becomes the returned string, any other goes on to the caller. 9888 and
  65039 are the warning sign and its variation selector.
\<close>

definition on_exception :: "py_exc \<Rightarrow> py_exc + pystr option" where
  "on_exception e =
     (if is_Exception e
      then Inr (Some ([9888, 65039] @ pystr_of '' AI explanation unavailable: '' @ exc_str e))
      else Inl e)"

text \<open>
  Lines 84 to 93. \<open>response.choices[0]\<close> raises \<open>IndexError\<close> inside the \<open>try\<close> when the
  response has no choice; the content of a choice is \<open>None\<close> or a string.
\<close>

definition explain_recommendation :: "env \<Rightarrow> pystr \<Rightarrow> float64 option \<Rightarrow> state \<Rightarrow> (py_exc + pystr option) \<times> state" where
  "explain_recommendation ev pollutant flow_rate st =
     (let request = explain_request ev pollutant flow_rate;
          st' = st\<lparr>ext_calls := ext_calls st @ [chat_create_call request]\<rparr>
      in case chat_create ev request of
           Inl e \<Rightarrow> (on_exception e, st')
         | Inr choices \<Rightarrow>
             (case choices of
                [] \<Rightarrow> (on_exception (PyExc IndexError (pystr_of ''list index out of range'')), st')
              | content # rest \<Rightarrow> (Inr content, st')))"

section \<open>extract\_pdf\_text (lines 96 to 103)\<close>

text \<open>\<open>x or ""\<close> for an \<open>x\<close> that is \<open>None\<close> or a string: a falsy \<open>x\<close> gives \<open>""\<close>.\<close>

fun or_empty :: "pystr option \<Rightarrow> pystr" where
  "or_empty None = []"
| "or_empty (Some s) = (if s = [] then [] else s)"

text \<open>
  The loop of lines 101 and 102 over \<open>reader.pages\<close>, from page number \<open>i\<close> with the text
  accumulated so far. A page whose extraction raises ends the loop with that exception.
\<close>

fun pages_loop :: "page list \<Rightarrow> nat \<Rightarrow> pystr \<Rightarrow> state \<Rightarrow> (py_exc + pystr) \<times> state" where
  "pages_loop [] i text st = (Inr text, st)"
| "pages_loop (p # ps) i text st =
     (let st' = st\<lparr>ext_calls := ext_calls st @ [extract_text_call i]\<rparr>
      in case p of
           Inl e \<Rightarrow> (Inl e, st')
         | Inr t \<Rightarrow> pages_loop ps (Suc i) (text @ or_empty t) st')"

text \<open>Lines 99 to 102: open the document and assemble the text of its pages.\<close>

definition assemble_text :: "env \<Rightarrow> pystr \<Rightarrow> state \<Rightarrow> (py_exc + pystr) \<times> state" where
  "assemble_text ev pdf_file st =
     (let st' = st\<lparr>ext_calls := ext_calls st @ [PdfReader_call pdf_file]\<rparr>
      in case PdfReader ev pdf_file of
           Inl e \<Rightarrow> (Inl e, st')
         | Inr pages \<Rightarrow> pages_loop pages 0 [] st')"

text \<open>
  \<open>pdf_file\<close> is the value of the upload field: \<open>None\<close> or a file path. \<open>not pdf_file\<close> holds
  for \<open>None\<close> and for the empty string.
\<close>

fun falsy :: "pystr option \<Rightarrow> bool" where
  "falsy None = True"
| "falsy (Some s) = (s = [])"

definition extract_pdf_text :: "env \<Rightarrow> pystr option \<Rightarrow> state \<Rightarrow> (py_exc + pystr) \<times> state" where
  "extract_pdf_text ev pdf_file st =
     (if falsy pdf_file then (Inr (pystr_of ''No file uploaded.''), st)
      else case pdf_file of
             None \<Rightarrow> (Inr (pystr_of ''No file uploaded.''), st)
           | Some path \<Rightarrow>
               (case assemble_text ev path st of
                  (Inl e, st') \<Rightarrow> (Inl e, st')
                | (Inr text, st') \<Rightarrow> (Inr (take 2000 text @ pystr_of ''...''), st')))"

section \<open>The words of the specification\<close>

text \<open>
  What a page adds to the assembled text, as the specification puts it: a page whose
  extraction yields nothing (\<open>None\<close> or the empty string) adds the empty string, any
  other page adds its text.
\<close>

fun page_contribution :: "pystr option \<Rightarrow> pystr" where
  "page_contribution None = []"
| "page_contribution (Some s) = s"

section \<open>Concrete inputs\<close>

text \<open>
  A world whose parser finds three pages in every file, the second without text, whose
  remote call always fails with a connection error, and whose Unicode mappings leave a
  string that is not ASCII as it is.
\<close>

definition sample_env :: env where
  "sample_env =
     \<lparr>PdfReader = (\<lambda>path. Inr [Inr (Some (pystr_of ''ab'')), Inr None, Inr (Some (pystr_of ''c''))]),
      chat_create = (\<lambda>request. Inl (PyExc OtherException (pystr_of ''Connection error.''))),
      unicode_lower = (\<lambda>s. s),
      unicode_capitalize = (\<lambda>s. s),
      float_str = (\<lambda>x. pystr_of ''100.0''),
      shape_mismatch_text = (\<lambda>n m. pystr_of ''shape mismatch'')\<rparr>"

text \<open>The same world with a one-page document of 2500 characters.\<close>

definition long_env :: env where
  "long_env = sample_env\<lparr>PdfReader := (\<lambda>path. Inr [Inr (Some (replicate 2500 97))])\<rparr>"

text \<open>
  The same world with a remote call that is interrupted from the keyboard:
  \<open>KeyboardInterrupt\<close> derives from \<open>BaseException\<close> and not from \<open>Exception\<close>, and its
  text is empty.
\<close>

definition interrupted_env :: env where
  "interrupted_env = sample_env\<lparr>chat_create := (\<lambda>request. Inl (PyExc NonException []))\<rparr>"

section \<open>Properties of extract\_pdf\_text\<close>

lemma or_empty_contribution: "or_empty t = page_contribution t"
  by (cases t) simp_all

lemma pages_loop_text:
  "fst (pages_loop (map Inr ts) i acc st) = Inr (acc @ concat (map page_contribution ts))"
  by (induction ts arbitrary: i acc st) (simp_all add: Let_def or_empty_contribution)

lemma assemble_text_pages:
  assumes "PdfReader ev path = Inr (map Inr ts)"
  shows "fst (assemble_text ev path st) = Inr (concat (map page_contribution ts))"
  using assms by (simp add: assemble_text_def Let_def pages_loop_text)

lemma extract_of_assembled:
  assumes "path \<noteq> []" and "fst (assemble_text ev path st) = Inr body"
  shows "fst (extract_pdf_text ev (Some path) st) = Inr (take 2000 body @ pystr_of ''...'')"
  using assms by (auto simp: extract_pdf_text_def split: prod.splits sum.splits)

lemma length_dots: "length (pystr_of ''...'') = 3"
  by (simp add: pystr_of_def)

text \<open>
  Claim C6. For every uploaded document that the parser reads, \<open>extract_pdf_text\<close>
  returns the first 2000 characters of the assembled text, or all of it when it is
  shorter, followed by the marker \<open>...\<close>: the part before the marker never has more
  than 2000 characters, however long the text of the document is.
\<close>
theorem extract_pdf_text_truncates:
  assumes "path \<noteq> []" and "fst (assemble_text ev path st) = Inr body"
  shows "\<exists>kept. fst (extract_pdf_text ev (Some path) st) = Inr (kept @ pystr_of ''...'')
           \<and> kept = take 2000 body \<and> length kept \<le> 2000"
  using extract_of_assembled [OF assms] by simp

text \<open>A document of 2500 characters gives the first 2000 and the marker.\<close>
theorem extract_pdf_text_truncates_witness:
  "fst (extract_pdf_text long_env (Some (pystr_of ''who.pdf'')) initial_state)
     = Inr (replicate 2000 97 @ pystr_of ''...'')"
proof -
  have p: "pystr_of ''who.pdf'' \<noteq> []"
    by (simp add: pystr_of_def)
  have a: "fst (assemble_text long_env (pystr_of ''who.pdf'') initial_state) = Inr (replicate 2500 97)"
    by (simp add: assemble_text_def long_env_def sample_env_def Let_def)
  from extract_pdf_text_truncates [OF p a] show ?thesis
    by simp
qed

text \<open>
  Claim C7. When the upload field is empty (\<open>None\<close>, or an empty path),
  \<open>extract_pdf_text\<close> returns the placeholder \<open>No file uploaded.\<close> and leaves the state as
  it was: no call to the parser is made.
\<close>
theorem extract_pdf_text_no_file:
  assumes "falsy pdf_file"
  shows "extract_pdf_text ev pdf_file st = (Inr (pystr_of ''No file uploaded.''), st)
         \<and> ext_calls (snd (extract_pdf_text ev pdf_file st)) = ext_calls st"
  using assms by (simp add: extract_pdf_text_def)

text \<open>Both empty values of the field.\<close>
theorem extract_pdf_text_no_file_witness:
  "extract_pdf_text sample_env None initial_state = (Inr (pystr_of ''No file uploaded.''), initial_state)
   \<and> extract_pdf_text sample_env (Some []) initial_state = (Inr (pystr_of ''No file uploaded.''), initial_state)"
  using extract_pdf_text_no_file [of None sample_env initial_state]
    extract_pdf_text_no_file [of "Some []" sample_env initial_state]
  by simp

text \<open>
  Claim C8. For a document whose pages are all extracted (each gives \<open>None\<close> or a
  string), the text assembled before truncation is the concatenation, in page order, of
  what each page contributes, and the result of \<open>extract_pdf_text\<close> is built from it.
\<close>
theorem assembled_text_is_concatenation:
  assumes "path \<noteq> []" and "PdfReader ev path = Inr (map Inr ts)"
  shows "fst (assemble_text ev path st) = Inr (concat (map page_contribution ts))
         \<and> fst (extract_pdf_text ev (Some path) st)
             = Inr (take 2000 (concat (map page_contribution ts)) @ pystr_of ''...'')"
  using assms extract_of_assembled assemble_text_pages by simp

text \<open>Three pages, the second without text.\<close>
theorem assembled_text_is_concatenation_witness:
  "fst (assemble_text sample_env (pystr_of ''who.pdf'') initial_state) = Inr (pystr_of ''abc'')"
proof -
  have p: "pystr_of ''who.pdf'' \<noteq> []"
    by (simp add: pystr_of_def)
  have r: "PdfReader sample_env (pystr_of ''who.pdf'')
             = Inr (map Inr [Some (pystr_of ''ab''), None, Some (pystr_of ''c'')])"
    by (simp add: sample_env_def)
  from assembled_text_is_concatenation [OF p r, of initial_state] show ?thesis
    by (simp add: pystr_of_def)
qed

text \<open>
  Claim C10. The marker is appended also when nothing is cut: for a document whose
  assembled text has fewer than 2000 characters, \<open>extract_pdf_text\<close> returns the whole
  text followed by \<open>...\<close>.
\<close>
theorem ellipsis_unconditional:
  assumes "path \<noteq> []" and "PdfReader ev path = Inr (map Inr ts)"
    and "length (concat (map page_contribution ts)) < 2000"
  shows "fst (extract_pdf_text ev (Some path) st)
           = Inr (concat (map page_contribution ts) @ pystr_of ''...'')"
  using assms extract_of_assembled [OF assms(1) assemble_text_pages [OF assms(2)]] by simp

text \<open>A document with no extractable text at all gives the marker alone.\<close>
theorem ellipsis_unconditional_witness:
  "fst (extract_pdf_text (sample_env\<lparr>PdfReader := (\<lambda>path. Inr [Inr None])\<rparr>)
          (Some (pystr_of ''scan.pdf'')) initial_state) = Inr (pystr_of ''...'')"
proof -
  let ?ev = "sample_env\<lparr>PdfReader := (\<lambda>path. Inr [Inr None])\<rparr>"
  have p: "pystr_of ''scan.pdf'' \<noteq> []"
    by (simp add: pystr_of_def)
  have r: "PdfReader ?ev (pystr_of ''scan.pdf'') = Inr (map Inr [None])"
    by simp
  have l: "length (concat (map page_contribution [None])) < 2000"
    by simp
  from ellipsis_unconditional [OF p r l, of initial_state] show ?thesis
    by simp
qed

section \<open>Properties of explain\_recommendation\<close>

text \<open>
  Claim C5, as amended. If the remote chat completion raises an exception that is an
  instance of \<open>Exception\<close>, the class that line 92 names, \<open>explain_recommendation\<close> returns
  normally, and its result is the warning marker followed by the text of the exception,
  for every pollutant and flow rate: such an exception does not leave the function.
\<close>
theorem explain_recommendation_catches:
  assumes "chat_create ev (explain_request ev pollutant flow_rate) = Inl e"
    and "is_Exception e"
  shows "fst (explain_recommendation ev pollutant flow_rate st)
           = Inr (Some ([9888, 65039] @ pystr_of '' AI explanation unavailable: '' @ exc_str e))"
  using assms by (simp add: explain_recommendation_def on_exception_def Let_def)

text \<open>A failed connection.\<close>
theorem explain_recommendation_catches_witness:
  "fst (explain_recommendation sample_env (pystr_of ''lead'') None initial_state)
     = Inr (Some ([9888, 65039] @ pystr_of '' AI explanation unavailable: Connection error.''))"
proof -
  let ?e = "PyExc OtherException (pystr_of ''Connection error.'')"
  have c: "chat_create sample_env (explain_request sample_env (pystr_of ''lead'') None) = Inl ?e"
    by (simp add: sample_env_def)
  have i: "is_Exception ?e"
    by simp
  from explain_recommendation_catches [OF c i, of initial_state] show ?thesis
    by (simp add: pystr_of_def)
qed

text \<open>
  Not every exception is caught: one that does not derive from \<open>Exception\<close> passes
  through \<open>except Exception\<close> and leaves the function.
\<close>

theorem explain_recommendation_propagates:
  "fst (explain_recommendation interrupted_env (pystr_of ''lead'') None initial_state)
     = Inl (PyExc NonException [])"
  by (simp add: explain_recommendation_def on_exception_def interrupted_env_def Let_def)

section \<open>The dictionary is never written\<close>

lemma pages_loop_db:
  "treatment_db (snd (pages_loop ps i acc st)) = treatment_db st"
  by (induction ps arbitrary: i acc st) (simp_all add: Let_def split: sum.splits)

lemma assemble_text_db: "treatment_db (snd (assemble_text ev path st)) = treatment_db st"
  by (simp add: assemble_text_def Let_def pages_loop_db split: sum.splits)

lemma extract_pdf_text_db: "treatment_db (snd (extract_pdf_text ev pdf_file st)) = treatment_db st"
proof (cases pdf_file)
  case None
  then show ?thesis by (simp add: extract_pdf_text_def)
next
  case (Some path)
  obtain r st' where a: "assemble_text ev path st = (r, st')"
    by (cases "assemble_text ev path st")
  then have "treatment_db st' = treatment_db st"
    using assemble_text_db [of ev path st] by simp
  with Some a show ?thesis
    by (cases r) (simp_all add: extract_pdf_text_def)
qed

lemma report_db: "treatment_db (snd (report ev pollutant rec flow_rate st)) = treatment_db st"
  by (simp add: report_def Let_def split: sum.splits)

lemma recommend_treatment_db:
  "treatment_db (snd (recommend_treatment ev pollutant flow_rate st)) = treatment_db st"
  by (simp add: recommend_treatment_def Let_def report_db split: option.splits)

lemma explain_recommendation_db:
  "treatment_db (snd (explain_recommendation ev pollutant flow_rate st)) = treatment_db st"
  by (simp add: explain_recommendation_def Let_def split: sum.splits list.splits)

text \<open>
  Claim C9. No operation changes the dictionary: after \<open>recommend_treatment\<close>,
  \<open>explain_recommendation\<close> or \<open>extract_pdf_text\<close>, whatever the arguments, the world and
  the outcome (a result or an exception), \<open>treatment_db\<close> is what it was before the call.
\<close>
theorem treatment_db_unchanged:
  "treatment_db (snd (recommend_treatment ev pollutant flow_rate st)) = treatment_db st
   \<and> treatment_db (snd (explain_recommendation ev pollutant flow_rate st)) = treatment_db st
   \<and> treatment_db (snd (extract_pdf_text ev pdf_file st)) = treatment_db st"
  by (simp add: recommend_treatment_db explain_recommendation_db extract_pdf_text_db)

section \<open>Properties of recommend\_treatment\<close>

lemma recommend_treatment_absent:
  assumes "treatment_db st (normalize ev pollutant) = None"
  shows "recommend_treatment ev pollutant flow_rate st
           = (Inr (no_data_message (normalize ev pollutant), None, None), st)"
  using assms by (simp add: recommend_treatment_def Let_def)

lemma initial_treatment_db_None:
  assumes "k \<noteq> pystr_of ''lead''" and "k \<noteq> pystr_of ''arsenic''" and "k \<noteq> pystr_of ''chromium''"
  shows "initial_treatment_db k = None"
  using assms by (simp add: initial_treatment_db_def)

text \<open>
  Claim C2, as amended. For every pollutant whose normal form (lower-cased, trimmed) is
  none of the three keys, and every flow rate, \<open>recommend_treatment\<close> returns the message
  of line 44 with the normal form of the pollutant in it, and neither chart nor table
  (both \<open>None\<close>); the state is left as it was.
\<close>
theorem no_data_for_unknown_pollutant:
  assumes "treatment_db st = initial_treatment_db"
    and "normalize ev pollutant \<noteq> pystr_of ''lead''"
    and "normalize ev pollutant \<noteq> pystr_of ''arsenic''"
    and "normalize ev pollutant \<noteq> pystr_of ''chromium''"
  shows "recommend_treatment ev pollutant flow_rate st
           = (Inr ([10060] @ pystr_of '' No data for '' @ [39] @ normalize ev pollutant @ [39]
                     @ pystr_of ''. Try lead, arsenic, chromium.'', None, None), st)"
  using assms recommend_treatment_absent [of st ev pollutant flow_rate]
    initial_treatment_db_None [of "normalize ev pollutant"]
  by (simp add: no_data_message_def)

lemma normalize_mercury: "normalize ev (pystr_of ''mercury'') = pystr_of ''mercury''"
  by (simp add: normalize_def py_lower_def py_strip_def is_ascii_def pystr_of_def ascii_lower_def is_space_def)

lemma normalize_zinc: "normalize ev (pystr_of ''zinc'') = pystr_of ''zinc''"
  by (simp add: normalize_def py_lower_def py_strip_def is_ascii_def pystr_of_def ascii_lower_def is_space_def)

text \<open>The pollutant of the specification's example.\<close>
theorem no_data_for_unknown_pollutant_witness:
  "recommend_treatment sample_env (pystr_of ''mercury'') None initial_state
     = (Inr ([10060] @ pystr_of '' No data for '' @ [39] @ pystr_of ''mercury'' @ [39]
               @ pystr_of ''. Try lead, arsenic, chromium.'', None, None), initial_state)"
proof -
  have t: "treatment_db initial_state = initial_treatment_db"
    by (simp add: initial_state_def)
  have n: "normalize sample_env (pystr_of ''mercury'') = pystr_of ''mercury''"
    by (rule normalize_mercury)
  have k: "pystr_of ''mercury'' \<noteq> pystr_of ''lead''" "pystr_of ''mercury'' \<noteq> pystr_of ''arsenic''"
    "pystr_of ''mercury'' \<noteq> pystr_of ''chromium''"
    by (simp_all add: pystr_of_def)
  from no_data_for_unknown_pollutant [of initial_state sample_env "pystr_of ''mercury''" None] t n k
  show ?thesis by simp
qed

lemma initial_state_db: "treatment_db initial_state = initial_treatment_db"
  by (simp add: initial_state_def)

lemma absent_mercury: "initial_treatment_db (pystr_of ''mercury'') = None"
  by (simp add: initial_treatment_db_def pystr_of_def)

lemma absent_zinc: "initial_treatment_db (pystr_of ''zinc'') = None"
  by (simp add: initial_treatment_db_def pystr_of_def)

text \<open>
  The message is not one fixed string: two pollutants outside the table get different
  messages, each naming the pollutant asked for.
\<close>
theorem no_data_message_not_fixed:
  "fst (recommend_treatment sample_env (pystr_of ''mercury'') None initial_state)
     = Inr ([10060] @ pystr_of '' No data for '' @ [39] @ pystr_of ''mercury'' @ [39]
              @ pystr_of ''. Try lead, arsenic, chromium.'', None, None)
   \<and> fst (recommend_treatment sample_env (pystr_of ''zinc'') None initial_state)
     = Inr ([10060] @ pystr_of '' No data for '' @ [39] @ pystr_of ''zinc'' @ [39]
              @ pystr_of ''. Try lead, arsenic, chromium.'', None, None)
   \<and> fst (recommend_treatment sample_env (pystr_of ''mercury'') None initial_state)
     \<noteq> fst (recommend_treatment sample_env (pystr_of ''zinc'') None initial_state)"
proof -
  have m: "fst (recommend_treatment sample_env (pystr_of ''mercury'') None initial_state)
             = Inr (no_data_message (pystr_of ''mercury''), None, None)"
    using recommend_treatment_absent [of initial_state sample_env "pystr_of ''mercury''" None]
    by (simp add: normalize_mercury initial_state_db absent_mercury)
  have z: "fst (recommend_treatment sample_env (pystr_of ''zinc'') None initial_state)
             = Inr (no_data_message (pystr_of ''zinc''), None, None)"
    using recommend_treatment_absent [of initial_state sample_env "pystr_of ''zinc''" None]
    by (simp add: normalize_zinc initial_state_db absent_zinc)
  have d: "no_data_message (pystr_of ''mercury'') \<noteq> no_data_message (pystr_of ''zinc'')"
    by (simp add: no_data_message_def pystr_of_def)
  from m z d show ?thesis
    by (simp add: no_data_message_def)
qed

subsection \<open>Normalizing twice\<close>

lemma py_strip_idem: "py_strip (py_strip s) = py_strip s"
proof -
  define t where "t = dropWhile is_space s"
  define r where "r = dropWhile is_space (rev t)"
  have keep: "dropWhile is_space (rev r) = rev r"
  proof (cases "r = []")
    case True
    then show ?thesis by simp
  next
    case False
    have "rev t = takeWhile is_space (rev t) @ r"
      by (simp add: r_def)
    then have "t = rev r @ rev (takeWhile is_space (rev t))"
      by (metis rev_append rev_rev_ident)
    with False have h: "hd (rev r) = hd t" and "t \<noteq> []"
      by (metis hd_append2 rev_is_Nil_conv, metis Nil_is_append_conv rev_is_Nil_conv)
    then have "\<not> is_space (hd t)"
      unfolding t_def by (metis hd_dropWhile)
    with h show ?thesis
      by (simp add: dropWhile_eq_self_iff)
  qed
  have "py_strip s = rev r"
    by (simp add: py_strip_def r_def t_def)
  moreover have "dropWhile is_space r = r"
    by (simp add: r_def)
  then have "py_strip (rev r) = rev r"
    by (simp add: py_strip_def keep)
  ultimately show ?thesis by simp
qed

lemma set_py_strip: "set (py_strip s) \<subseteq> set s"
proof -
  have "set (dropWhile is_space (rev (dropWhile is_space s))) \<subseteq> set (rev (dropWhile is_space s))"
    by (meson set_dropWhileD subsetI)
  also have "\<dots> \<subseteq> set s"
    using set_dropWhileD by fastforce
  finally show ?thesis
    by (simp add: py_strip_def)
qed

lemma ascii_lower_idem: "ascii_lower (ascii_lower c) = ascii_lower c"
  by (simp add: ascii_lower_def)

lemma ascii_lower_ascii: "c < 128 \<Longrightarrow> ascii_lower c < 128"
  by (simp add: ascii_lower_def)

lemma normalize_ascii_settled:
  assumes "is_ascii s"
  shows "py_lower ev (normalize ev s) = normalize ev s"
proof -
  let ?n = "py_strip (map ascii_lower s)"
  have n: "normalize ev s = ?n"
    using assms by (simp add: normalize_def py_lower_def)
  have sub: "set ?n \<subseteq> ascii_lower ` set s"
    using set_py_strip [of "map ascii_lower s"] by simp
  have "is_ascii ?n"
    using assms sub ascii_lower_ascii by (auto simp: is_ascii_def list_all_iff)
  moreover have "map ascii_lower ?n = ?n"
    using sub ascii_lower_idem by (intro map_idI) auto
  ultimately show ?thesis
    by (simp add: n py_lower_def)
qed

lemma normalize_idem:
  assumes "py_lower ev (normalize ev s) = normalize ev s"
  shows "normalize ev (normalize ev s) = normalize ev s"
proof -
  have "normalize ev (normalize ev s) = py_strip (normalize ev s)"
    using assms by (simp add: normalize_def)
  also have "\<dots> = normalize ev s"
    by (simp add: normalize_def py_strip_idem)
  finally show ?thesis .
qed

text \<open>
  Claim C3. The lookup does not depend on case or on surrounding whitespace: for every
  string \<open>s\<close>, flow rate and state, \<open>recommend_treatment\<close> on \<open>s\<close> gives what it gives on
  the lower-cased, trimmed form of \<open>s\<close>, result and state alike. This holds for every
  ASCII string; for any other string it holds when lower-casing leaves the normal form
  of \<open>s\<close> unchanged, which is a property of the Unicode database and not of app.py.
\<close>
theorem lookup_ignores_case_and_spaces:
  assumes "is_ascii s \<or> py_lower ev (normalize ev s) = normalize ev s"
  shows "recommend_treatment ev s flow_rate st
           = recommend_treatment ev (normalize ev s) flow_rate st"
proof -
  from assms have "py_lower ev (normalize ev s) = normalize ev s"
    using normalize_ascii_settled by blast
  then have "normalize ev (normalize ev s) = normalize ev s"
    by (rule normalize_idem)
  then show ?thesis
    by (simp add: recommend_treatment_def)
qed

lemma normalize_LEAD: "normalize ev (pystr_of '' LEAD '') = pystr_of ''lead''"
  by (simp add: normalize_def py_lower_def py_strip_def is_ascii_def pystr_of_def ascii_lower_def is_space_def)

text \<open>The strings \<open>" LEAD "\<close> and \<open>"lead"\<close> give the same output.\<close>
theorem lookup_ignores_case_and_spaces_witness:
  "recommend_treatment sample_env (pystr_of '' LEAD '') (Some (dbl 100)) initial_state
     = recommend_treatment sample_env (pystr_of ''lead'') (Some (dbl 100)) initial_state"
proof -
  have a: "is_ascii (pystr_of '' LEAD '')"
    by (simp add: is_ascii_def pystr_of_def)
  then have "is_ascii (pystr_of '' LEAD '')
      \<or> py_lower sample_env (normalize sample_env (pystr_of '' LEAD ''))
          = normalize sample_env (pystr_of '' LEAD '')"
    by simp
  from lookup_ignores_case_and_spaces [OF this, of "Some (dbl 100)" initial_state]
  show ?thesis
    by (simp add: normalize_LEAD)
qed

section \<open>Rounding never overflows in the table\<close>

text \<open>Powers of two, the binary exponent and rounding to an integer.\<close>

lemma pow2_powi: "pow2 n = 2 powi n"
  by (simp add: pow2_def power_int_def inverse_eq_divide power_one_over)

lemma pow2_pos: "0 < pow2 n"
  by (simp add: pow2_powi)

lemma pow2_add: "pow2 (m + n) = pow2 m * pow2 n"
  by (simp add: pow2_powi power_int_add)

lemma pow2_mono: "m \<le> n \<Longrightarrow> pow2 m \<le> pow2 n"
  by (simp add: pow2_powi power_int_increasing)

lemma pow2_nat: "0 \<le> n \<Longrightarrow> pow2 n = of_int (2 ^ nat n)"
  by (simp add: pow2_def)

lemma ilog2_bounds:
  assumes "0 < a"
  shows "pow2 (ilog2 a) \<le> a \<and> a < pow2 (ilog2 a + 1)"
proof -
  obtain p q where pq: "quotient_of a = (p, q)"
    by (cases "quotient_of a")
  then have q: "0 < q" and a: "a = of_int p / of_int q"
    by (rule quotient_of_denom_pos, rule quotient_of_div)
  with assms have p: "0 < p"
    by (simp add: zero_less_divide_iff)
  define bp where "bp = bitlen p"
  define bq where "bq = bitlen q"
  have bp1: "1 \<le> bp" and bq1: "1 \<le> bq"
    using p q bitlen_bounds [of p] bitlen_bounds [of q] unfolding bp_def bq_def
    by (auto simp: bitlen_alt_def)
  have plo: "pow2 (bp - 1) \<le> of_int p" and phi: "of_int p < pow2 bp"
    using bitlen_bounds [OF p] bp1 unfolding bp_def [symmetric]
    by (simp_all add: pow2_nat flip: of_int_power)
  have qlo: "pow2 (bq - 1) \<le> of_int q" and qhi: "of_int q < pow2 bq"
    using bitlen_bounds [OF q] bq1 unfolding bq_def [symmetric]
    by (simp_all add: pow2_nat flip: of_int_power)
  have qq: "(0::rat) < of_int q"
    using q by simp
  have lo: "pow2 (bp - bq - 1) \<le> a"
  proof -
    have "pow2 (bp - bq - 1) * of_int q \<le> pow2 (bp - bq - 1) * pow2 bq"
      using qhi pow2_pos [of "bp - bq - 1"] by (simp add: less_imp_le)
    also have "\<dots> = pow2 (bp - 1)"
      by (simp flip: pow2_add)
    also have "\<dots> \<le> of_int p"
      by (rule plo)
    finally show ?thesis
      using qq by (simp add: a pos_le_divide_eq)
  qed
  have hi: "a < pow2 (bp - bq + 1)"
  proof -
    have "of_int p < pow2 bp"
      by (rule phi)
    also have "\<dots> = pow2 (bp - bq + 1) * pow2 (bq - 1)"
      by (simp flip: pow2_add)
    also have "\<dots> \<le> pow2 (bp - bq + 1) * of_int q"
      using qlo pow2_pos [of "bp - bq + 1"] by simp
    finally show ?thesis
      using qq by (simp add: a pos_divide_less_eq)
  qed
  show ?thesis
  proof (cases "pow2 (bp - bq) \<le> a")
    case True
    then have "ilog2 a = bp - bq"
      by (simp add: ilog2_def pq bp_def bq_def)
    with True hi show ?thesis by simp
  next
    case False
    then have "ilog2 a = bp - bq - 1"
      by (simp add: ilog2_def pq bp_def bq_def)
    with False lo show ?thesis by simp
  qed
qed

lemma round_half_even_bounds:
  "of_int (round_half_even x) \<le> x + 1 / 2 \<and> x - 1 / 2 \<le> of_int (round_half_even x)"
proof -
  define f where "f = \<lfloor>x\<rfloor>"
  have "of_int f \<le> x" and "x < of_int f + 1"
    unfolding f_def by linarith+
  then show ?thesis
    unfolding round_half_even_def Let_def f_def [symmetric] by auto
qed

lemma round_half_even_of_int: "round_half_even (of_int n) = n"
  by (simp add: round_half_even_def)


lemma round_half_even_nonneg: "0 \<le> x \<Longrightarrow> 0 \<le> round_half_even x"
proof -
  assume "0 \<le> x"
  then have "- 1 < (of_int (round_half_even x) :: rat)"
    using round_half_even_bounds [of x] by linarith
  then have "- 1 < round_half_even x"
    by (metis of_int_less_iff of_int_minus of_int_1)
  then show ?thesis by simp
qed

text \<open>The value before the overflow test in \<open>round_mag\<close>.\<close>

lemma round_mag_Some:
  assumes "round_mag x = Some v" and "x \<noteq> 0"
  shows "v = of_int (round_half_even (x / pow2 (max (ilog2 x) (- 1022) - 52)))
               * pow2 (max (ilog2 x) (- 1022) - 52)
         \<and> v < pow2 1024"
  using assms by (auto simp: round_mag_def Let_def split: if_splits)

lemma round_mag_upper:
  assumes "0 < x"
  shows "of_int (round_half_even (x / pow2 (max (ilog2 x) (- 1022) - 52)))
           * pow2 (max (ilog2 x) (- 1022) - 52)
         \<le> x + pow2 (max (ilog2 x) (- 1022) - 53)"
proof -
  define u where "u = pow2 (max (ilog2 x) (- 1022) - 52)"
  have u: "0 < u"
    by (simp add: u_def pow2_pos)
  have half: "pow2 (max (ilog2 x) (- 1022) - 53) = u / 2"
  proof -
    have "pow2 (max (ilog2 x) (- 1022) - 52) = pow2 (max (ilog2 x) (- 1022) - 53) * pow2 1"
      by (simp flip: pow2_add)
    then show ?thesis
      by (simp add: u_def pow2_def)
  qed
  have "of_int (round_half_even (x / u)) * u \<le> (x / u + 1 / 2) * u"
    using round_half_even_bounds [of "x / u"] u by (simp add: mult_right_mono)
  also have "\<dots> = x + u / 2"
    using u by (simp add: distrib_right)
  finally show ?thesis
    by (simp add: half u_def)
qed

lemma round_mag_in_range:
  assumes "0 \<le> w" and "w \<le> pow2 1024 - pow2 971"
  shows "\<exists>v. round_mag w = Some v"
proof (cases "w = 0")
  case True
  then show ?thesis by (simp add: round_mag_def)
next
  case False
  with assms have w: "0 < w" by simp
  define e where "e = max (ilog2 w) (- 1022)"
  have "ilog2 w < 1024"
  proof (rule ccontr)
    assume "\<not> ilog2 w < 1024"
    then have "pow2 1024 \<le> pow2 (ilog2 w)"
      by (simp add: pow2_mono)
    also have "\<dots> \<le> w"
      using ilog2_bounds [OF w] by simp
    finally show False
      using assms(2) pow2_pos [of 971] by linarith
  qed
  then have "e - 53 \<le> 970"
    by (simp add: e_def)
  then have "pow2 (e - 53) \<le> pow2 970"
    by (rule pow2_mono)
  moreover have "pow2 970 < pow2 971"
    by (simp add: pow2_def)
  ultimately have "w + pow2 (e - 53) < pow2 1024"
    using assms(2) by linarith
  with round_mag_upper [OF w] have "\<not> pow2 1024
      \<le> of_int (round_half_even (w / pow2 (e - 52))) * pow2 (e - 52)"
    unfolding e_def by linarith
  with False show ?thesis
    by (simp add: round_mag_def Let_def e_def)
qed


lemma decimal_of_rounded_in_range:
  assumes "round_mag x = Some v" and "0 \<le> x"
  shows "0 \<le> (of_int (round_half_even (\<bar>v\<bar> * 100)) / 100 :: rat)
         \<and> of_int (round_half_even (\<bar>v\<bar> * 100)) / 100 \<le> pow2 1024 - pow2 971"
proof -
  have nonneg: "0 \<le> (of_int (round_half_even (\<bar>v\<bar> * 100)) / 100 :: rat)"
    using round_half_even_nonneg [of "\<bar>v\<bar> * 100"] by simp
  have top: "of_int (round_half_even (\<bar>v\<bar> * 100)) / 100 \<le> pow2 1024 - pow2 971"
  proof (cases "x = 0")
    case True
    with assms have "v = 0"
      by (simp add: round_mag_def)
    then show ?thesis
      by (simp add: round_half_even_def pow2_def)
  next
    case False
    with assms have x: "0 < x" by simp
    define e where "e = max (ilog2 x) (- 1022)"
    define m where "m = round_half_even (x / pow2 (e - 52))"
    have v: "v = of_int m * pow2 (e - 52)" and small: "v < pow2 1024"
      using round_mag_Some [OF assms(1) False] by (simp_all add: e_def m_def)
    have m: "0 \<le> m"
      unfolding m_def using x pow2_pos [of "e - 52"] by (intro round_half_even_nonneg) simp
    then have v0: "0 \<le> v"
      using pow2_pos [of "e - 52"] by (simp add: v)
    show ?thesis
    proof (cases "e \<le> 1022")
      case True
      have "x < pow2 (ilog2 x + 1)"
        using ilog2_bounds [OF x] by simp
      also have "\<dots> \<le> pow2 1023"
        using True by (intro pow2_mono) (simp add: e_def)
      finally have "x < pow2 1023" .
      moreover have "pow2 (e - 53) \<le> pow2 969"
        using True by (intro pow2_mono) simp
      moreover have "v \<le> x + pow2 (e - 53)"
        using round_mag_upper [OF x] by (simp add: v m_def e_def)
      ultimately have vle: "v \<le> pow2 1023 + pow2 969"
        by linarith
      have "of_int (round_half_even (\<bar>v\<bar> * 100)) \<le> \<bar>v\<bar> * 100 + 1 / 2"
        using round_half_even_bounds [of "\<bar>v\<bar> * 100"] by simp
      also have "\<dots> = v * 100 + 1 / 2"
        using v0 by simp
      also have "\<dots> \<le> (pow2 1023 + pow2 969) * 100 + 1 / 2"
        using vle by simp
      also have "\<dots> \<le> (pow2 1024 - pow2 971) * 100"
        by (simp add: pow2_def)
      finally have "of_int (round_half_even (\<bar>v\<bar> * 100)) \<le> (pow2 1024 - pow2 971) * 100" .
      then show ?thesis by simp
    next
      case False
      define j where "j = nat (e - 1023)"
      have "e - 52 = int j + 971"
        using False by (simp add: j_def)
      then have "pow2 (e - 52) = pow2 (int j) * pow2 971"
        by (simp add: pow2_add)
      then have u: "pow2 (e - 52) = of_int (2 ^ j * 2 ^ 971)"
        by (simp add: pow2_def)
      define k where "k = m * 2 ^ j"
      have vk: "v = of_int (k * 2 ^ 971)"
        by (simp add: v u k_def)
      have "pow2 1024 = of_int (2 ^ 53 * 2 ^ 971)"
        by (simp add: pow2_def)
      with small vk have "k * 2 ^ 971 < (2 ^ 53 :: int) * 2 ^ 971"
        by (metis of_int_less_iff)
      then have "k < 2 ^ 53"
        by simp
      then have "k * 2 ^ 971 \<le> (2 ^ 53 - 1 :: int) * 2 ^ 971"
        by (intro mult_right_mono) simp_all
      then have "(of_int (k * 2 ^ 971) :: rat) \<le> of_int ((2 ^ 53 - 1) * 2 ^ 971)"
        by (metis of_int_le_iff)
      also have "\<dots> = pow2 1024 - pow2 971"
        by (simp add: pow2_def)
      finally have le: "v \<le> pow2 1024 - pow2 971"
        by (simp add: vk)
      have "\<bar>v\<bar> * 100 = of_int (k * 2 ^ 971 * 100)"
        using v0 by (simp add: vk)
      then have "round_half_even (\<bar>v\<bar> * 100) = k * 2 ^ 971 * 100"
        by (simp only: round_half_even_of_int)
      then have "(of_int (round_half_even (\<bar>v\<bar> * 100)) / 100 :: rat) = v"
        by (simp add: vk)
      with le show ?thesis by simp
    qed
  qed
  from nonneg top show ?thesis ..
qed

lemma round_2_fmul_returns: "\<exists>r. round_2 (fmul c q) = Inr r"
proof (cases "fmul c q")
  case (Fin s v)
  then obtain a b where "round_mag \<bar>a * b\<bar> = Some v"
    by (cases c; cases q) (auto split: if_splits option.splits)
  then have "\<exists>r. round_mag (of_int (round_half_even (\<bar>v\<bar> * 100)) / 100) = Some r"
    using decimal_of_rounded_in_range [of "\<bar>a * b\<bar>" v] by (intro round_mag_in_range) simp_all
  with Fin show ?thesis by auto
next
  case (Inf s)
  then show ?thesis by simp
next
  case NaN
  then show ?thesis by simp
qed

lemma ilog2_unique:
  assumes "pow2 e \<le> x" and "x < pow2 (e + 1)"
  shows "ilog2 x = e"
proof -
  have x: "0 < x"
    using assms(1) pow2_pos [of e] by linarith
  have lo: "pow2 (ilog2 x) \<le> x" and hi: "x < pow2 (ilog2 x + 1)"
    using ilog2_bounds [OF x] by simp_all
  have "\<not> ilog2 x < e"
  proof
    assume "ilog2 x < e"
    then have "pow2 (ilog2 x + 1) \<le> pow2 e"
      by (intro pow2_mono) simp
    with hi assms(1) show False by linarith
  qed
  moreover have "\<not> e < ilog2 x"
  proof
    assume "e < ilog2 x"
    then have "pow2 (e + 1) \<le> pow2 (ilog2 x)"
      by (intro pow2_mono) simp
    with lo assms(2) show False by linarith
  qed
  ultimately show ?thesis by simp
qed

lemma round_half_even_eqI:
  assumes "of_int m - 1 / 2 < x" and "x < of_int m + 1 / 2"
  shows "round_half_even x = m"
proof -
  have "(of_int (round_half_even x) :: rat) < of_int (m + 1)"
    using round_half_even_bounds [of x] assms by simp
  moreover have "(of_int (m - 1) :: rat) < of_int (round_half_even x)"
    using round_half_even_bounds [of x] assms by simp
  ultimately have "round_half_even x < m + 1" and "m - 1 < round_half_even x"
    by (simp_all only: of_int_less_iff)
  then show ?thesis by simp
qed

text \<open>
  Evaluating \<open>round_mag\<close> from a certificate: the exponent \<open>e\<close> and the integer \<open>m\<close>
  nearest to the scaled value.
\<close>

lemma round_mag_eval:
  assumes "pow2 e \<le> x" and "x < pow2 (e + 1)" and "- 1022 \<le> e"
    and "of_int m - 1 / 2 < x / pow2 (e - 52)" and "x / pow2 (e - 52) < of_int m + 1 / 2"
    and "of_int m * pow2 (e - 52) < pow2 1024"
  shows "round_mag x = Some (of_int m * pow2 (e - 52))"
proof -
  have x: "x \<noteq> 0"
    using assms(1) pow2_pos [of e] by linarith
  have e: "max (ilog2 x) (- 1022) = e"
    using ilog2_unique [OF assms(1,2)] assms(3) by simp
  have "round_half_even (x / pow2 (e - 52)) = m"
    using assms(4,5) by (rule round_half_even_eqI)
  with x e assms(6) show ?thesis
    by (simp add: round_mag_def Let_def)
qed

section \<open>The report for a key of the table\<close>

lemma scaled_returns:
  "\<exists>rs. scaled cs (Some q) = Inr rs \<and> map Inr rs = map (\<lambda>c. round_2 (fmul c q)) cs"
proof (induction cs)
  case Nil
  show ?case by simp
next
  case (Cons c cs)
  then obtain rs where rs: "scaled cs (Some q) = Inr rs"
    and m: "map Inr rs = map (\<lambda>c. round_2 (fmul c q)) cs"
    by blast
  obtain r where r: "round_2 (fmul c q) = Inr r"
    using round_2_fmul_returns by blast
  have "scaled (c # cs) (Some q) = Inr (r # rs)"
    by (simp add: r rs)
  moreover have "map Inr (r # rs) = map (\<lambda>c. round_2 (fmul c q)) (c # cs)"
    by (simp add: r m)
  ultimately show ?case by blast
qed

lemma report_returns:
  assumes "length (efficiency rec) = length (methods rec)"
    and "length (cost_per_m3 rec) = length (methods rec)"
    and "length (sludge_kg_per_m3 rec) = length (methods rec)"
  shows "\<exists>text fig df. fst (report ev k rec (Some q) st) = Inr (text, Some fig, Some df)
           \<and> Method df = methods rec \<and> Efficiency_pct df = efficiency rec
           \<and> Cost_per_m3 df = cost_per_m3 rec \<and> Sludge_kg_per_m3 df = sludge_kg_per_m3 rec
           \<and> map Inr (Daily_Cost df) = map (\<lambda>c. round_2 (fmul c q)) (cost_per_m3 rec)
           \<and> map Inr (Sludge_kg_per_day df)
               = map (\<lambda>s. round_2 (fmul s q)) (sludge_kg_per_m3 rec)"
proof -
  obtain dc where dc: "scaled (cost_per_m3 rec) (Some q) = Inr dc"
    and dcm: "map Inr dc = map (\<lambda>c. round_2 (fmul c q)) (cost_per_m3 rec)"
    using scaled_returns by blast
  obtain ds where ds: "scaled (sludge_kg_per_m3 rec) (Some q) = Inr ds"
    and dsm: "map Inr ds = map (\<lambda>s. round_2 (fmul s q)) (sludge_kg_per_m3 rec)"
    using scaled_returns by blast
  have "length (map Inr dc :: (py_exc + float64) list) = length (cost_per_m3 rec)"
    by (simp only: dcm length_map)
  then have ldc: "length dc = length (methods rec)"
    using assms(2) by simp
  have "length (map Inr ds :: (py_exc + float64) list) = length (sludge_kg_per_m3 rec)"
    by (simp only: dsm length_map)
  then have lds: "length ds = length (methods rec)"
    using assms(3) by simp
  show ?thesis
    using assms ldc lds dcm dsm
    by (simp add: report_def ax_bar_def DataFrame_def Let_def dc ds)
qed

lemma initial_treatment_db_lead: "initial_treatment_db (pystr_of ''lead'') = Some lead"
  by (simp add: initial_treatment_db_def)

lemma initial_treatment_db_arsenic: "initial_treatment_db (pystr_of ''arsenic'') = Some arsenic"
  by (simp add: initial_treatment_db_def pystr_of_def)

lemma initial_treatment_db_chromium: "initial_treatment_db (pystr_of ''chromium'') = Some chromium"
  by (simp add: initial_treatment_db_def pystr_of_def)

lemma initial_treatment_db_Some:
  assumes "initial_treatment_db k = Some rec"
  shows "k = pystr_of ''lead'' \<and> rec = lead \<or> k = pystr_of ''arsenic'' \<and> rec = arsenic
         \<or> k = pystr_of ''chromium'' \<and> rec = chromium"
  using assms by (auto simp: initial_treatment_db_def split: if_splits)

lemma normalize_keys:
  "normalize ev (pystr_of ''lead'') = pystr_of ''lead''"
  "normalize ev (pystr_of ''arsenic'') = pystr_of ''arsenic''"
  "normalize ev (pystr_of ''chromium'') = pystr_of ''chromium''"
  by (simp_all add: normalize_def py_lower_def py_strip_def is_ascii_def pystr_of_def
      ascii_lower_def is_space_def)

lemma literal_lengths:
  "length (methods lead) = 3" "length (efficiency lead) = 3"
  "length (cost_per_m3 lead) = 3" "length (sludge_kg_per_m3 lead) = 3"
  "length (methods arsenic) = 3" "length (efficiency arsenic) = 3"
  "length (cost_per_m3 arsenic) = 3" "length (sludge_kg_per_m3 arsenic) = 3"
  "length (methods chromium) = 3" "length (efficiency chromium) = 3"
  "length (cost_per_m3 chromium) = 3" "length (sludge_kg_per_m3 chromium) = 3"
  by (simp_all add: lead_def arsenic_def chromium_def)

lemma recommend_treatment_key:
  assumes "treatment_db st (normalize ev pollutant) = Some rec"
  shows "recommend_treatment ev pollutant flow_rate st
           = report ev (normalize ev pollutant) rec flow_rate st"
  using assms by (simp add: recommend_treatment_def Let_def)


lemma recommend_treatment_returns:
  assumes "treatment_db st (normalize ev pollutant) = Some rec"
    and "length (efficiency rec) = length (methods rec)"
    and "length (cost_per_m3 rec) = length (methods rec)"
    and "length (sludge_kg_per_m3 rec) = length (methods rec)"
  shows "\<exists>text fig df. fst (recommend_treatment ev pollutant (Some q) st)
               = Inr (text, Some fig, Some df)
           \<and> Method df = methods rec \<and> Efficiency_pct df = efficiency rec
           \<and> Cost_per_m3 df = cost_per_m3 rec \<and> Sludge_kg_per_m3 df = sludge_kg_per_m3 rec
           \<and> map Inr (Daily_Cost df) = map (\<lambda>c. round_2 (fmul c q)) (cost_per_m3 rec)
           \<and> map Inr (Sludge_kg_per_day df)
               = map (\<lambda>s. round_2 (fmul s q)) (sludge_kg_per_m3 rec)"
  unfolding recommend_treatment_key [OF assms(1)]
  using report_returns [OF assms(2,3,4)] by blast

lemma initial_lengths:
  assumes "initial_treatment_db k = Some rec"
  shows "length (efficiency rec) = length (methods rec)
         \<and> length (cost_per_m3 rec) = length (methods rec)
         \<and> length (sludge_kg_per_m3 rec) = length (methods rec)"
  using initial_treatment_db_Some [OF assms] by (auto simp: literal_lengths)

lemma keys_distinct:
  "pystr_of ''arsenic'' \<noteq> pystr_of ''lead''" "pystr_of ''chromium'' \<noteq> pystr_of ''lead''"
  "pystr_of ''chromium'' \<noteq> pystr_of ''arsenic''"
  by (simp_all add: pystr_of_def)

text \<open>
  Claim C4. For each of the three keys lead, arsenic and chromium, the dictionary holds
  the record written in lines 15 to 35, its four parallel sequences (methods,
  efficiencies, unit costs, unit sludge rates) have the same length, and the lookup
  returns them as they are written: \<open>recommend_treatment\<close> returns a table whose columns
  Method, Efficiency, Cost and Sludge are these sequences.
\<close>
theorem parallel_sequences_equal_length:
  assumes "k = pystr_of ''lead'' \<or> k = pystr_of ''arsenic'' \<or> k = pystr_of ''chromium''"
    and "treatment_db st = initial_treatment_db"
  shows "\<exists>rec. initial_treatment_db k = Some rec
           \<and> rec = (if k = pystr_of ''lead'' then lead
                    else if k = pystr_of ''arsenic'' then arsenic else chromium)
           \<and> length (efficiency rec) = length (methods rec)
           \<and> length (cost_per_m3 rec) = length (methods rec)
           \<and> length (sludge_kg_per_m3 rec) = length (methods rec)
           \<and> (\<exists>text fig df. fst (recommend_treatment ev k (Some q) st)
                   = Inr (text, Some fig, Some df)
                 \<and> Method df = methods rec \<and> Efficiency_pct df = efficiency rec
                 \<and> Cost_per_m3 df = cost_per_m3 rec
                 \<and> Sludge_kg_per_m3 df = sludge_kg_per_m3 rec)"
proof -
  define rec where "rec = (if k = pystr_of ''lead'' then lead
                           else if k = pystr_of ''arsenic'' then arsenic else chromium)"
  have found: "initial_treatment_db k = Some rec"
    using assms(1) unfolding rec_def
    by (auto simp: initial_treatment_db_lead initial_treatment_db_arsenic
        initial_treatment_db_chromium keys_distinct)
  have same: "normalize ev k = k"
    using assms(1) normalize_keys by auto
  have len: "length (efficiency rec) = length (methods rec)"
    "length (cost_per_m3 rec) = length (methods rec)"
    "length (sludge_kg_per_m3 rec) = length (methods rec)"
    using initial_lengths [OF found] by simp_all
  have "treatment_db st (normalize ev k) = Some rec"
    by (simp add: same assms(2) found)
  from recommend_treatment_returns [OF this len, of q]
  have "\<exists>text fig df. fst (recommend_treatment ev k (Some q) st) = Inr (text, Some fig, Some df)
          \<and> Method df = methods rec \<and> Efficiency_pct df = efficiency rec
          \<and> Cost_per_m3 df = cost_per_m3 rec \<and> Sludge_kg_per_m3 df = sludge_kg_per_m3 rec"
    by blast
  with found len show ?thesis
    unfolding rec_def [symmetric] by blast
qed

text \<open>The key lead, with the sequences of lines 16 to 20.\<close>
theorem parallel_sequences_equal_length_witness:
  "\<exists>text fig df. fst (recommend_treatment sample_env (pystr_of ''lead'') (Some (dbl 100))
                        initial_state) = Inr (text, Some fig, Some df)
     \<and> Method df = [pystr_of ''Chemical Precipitation'', pystr_of ''Ion Exchange'',
                     pystr_of ''Membrane Filtration'']
     \<and> Efficiency_pct df = [85, 90, 95]
     \<and> Cost_per_m3 df = [dbl (8 / 10), dbl (15 / 10), dbl (22 / 10)]
     \<and> Sludge_kg_per_m3 df = [dbl (12 / 100), dbl (5 / 100), dbl (2 / 100)]"
proof -
  have k: "pystr_of ''lead'' = pystr_of ''lead'' \<or> pystr_of ''lead'' = pystr_of ''arsenic''
           \<or> pystr_of ''lead'' = pystr_of ''chromium''"
    by simp
  have t: "treatment_db initial_state = initial_treatment_db"
    by (simp add: initial_state_def)
  from parallel_sequences_equal_length [OF k t, of sample_env "dbl 100"]
  show ?thesis
    by (auto simp: lead_def)
qed

text \<open>The example of the specification, evaluated: the literal 0.8, times 100, rounded.\<close>

lemma dbl_08: "dbl (8 / 10) = Fin False (3602879701896397 / 4503599627370496)"
proof -
  have "round_mag (8 / 10) = Some (of_int 7205759403792794 * pow2 (- 1 - 52))"
    by (rule round_mag_eval) (simp_all add: pow2_def)
  then show ?thesis
    by (simp add: dbl_def pow2_def)
qed

lemma dbl_100: "dbl 100 = Fin False 100"
proof -
  have "round_mag 100 = Some (of_int 7036874417766400 * pow2 (6 - 52))"
    by (rule round_mag_eval) (simp_all add: pow2_def)
  then show ?thesis
    by (simp add: dbl_def pow2_def)
qed

lemma round_mag_80: "round_mag 80 = Some 80"
proof -
  have "round_mag 80 = Some (of_int 5629499534213120 * pow2 (6 - 52))"
    by (rule round_mag_eval) (simp_all add: pow2_def)
  then show ?thesis
    by (simp add: pow2_def)
qed

lemma fmul_08_100: "fmul (dbl (8 / 10)) (dbl 100) = Fin False 80"
proof -
  have "round_mag (3602879701896397 / 4503599627370496 * 100)
          = Some (of_int 5629499534213120 * pow2 (6 - 52))"
    by (rule round_mag_eval) (simp_all add: pow2_def)
  then show ?thesis
    unfolding dbl_08 dbl_100 by (simp add: pow2_def)
qed

lemma round_2_80: "round_2 (fmul (dbl (8 / 10)) (dbl 100)) = Inr (dbl 80)"
  unfolding fmul_08_100
  by (simp add: round_half_even_of_int [of 8000, simplified] round_mag_80 dbl_def)

text \<open>
  Claim C1. For every key of the table and every flow rate that is a float, negative,
  zero, infinite or NaN alike, \<open>recommend_treatment\<close> returns a table, and its columns
  Daily Cost and Sludge (kg/day) hold, method by method, \<open>round(c * flow_rate, 2)\<close> for
  the unit cost \<open>c\<close>, respectively for the unit sludge rate: no entry raises.
\<close>
theorem daily_columns_scaled_and_rounded:
  assumes "initial_treatment_db k = Some rec" and "treatment_db st = initial_treatment_db"
  shows "\<exists>text fig df. fst (recommend_treatment ev k (Some q) st)
               = Inr (text, Some fig, Some df)
           \<and> map Inr (Daily_Cost df) = map (\<lambda>c. round_2 (fmul c q)) (cost_per_m3 rec)
           \<and> map Inr (Sludge_kg_per_day df)
               = map (\<lambda>s. round_2 (fmul s q)) (sludge_kg_per_m3 rec)"
proof -
  have "normalize ev k = k"
    using initial_treatment_db_Some [OF assms(1)] normalize_keys by auto
  then have "treatment_db st (normalize ev k) = Some rec"
    by (simp add: assms)
  from recommend_treatment_returns [OF this, of q] initial_lengths [OF assms(1)]
  show ?thesis by blast
qed

text \<open>The example of the specification: unit cost 0.8 at flow rate 100 gives 80.0.\<close>
theorem daily_columns_scaled_and_rounded_witness:
  "\<exists>text fig df rest. fst (recommend_treatment sample_env (pystr_of ''lead'') (Some (dbl 100))
                             initial_state) = Inr (text, Some fig, Some df)
     \<and> Daily_Cost df = dbl 80 # rest"
proof -
  have t: "treatment_db initial_state = initial_treatment_db"
    by (simp add: initial_state_def)
  from daily_columns_scaled_and_rounded [OF initial_treatment_db_lead t, of sample_env "dbl 100"]
  obtain text_out fig df where
    r: "fst (recommend_treatment sample_env (pystr_of ''lead'') (Some (dbl 100)) initial_state)
          = Inr (text_out, Some fig, Some df)"
    and m: "map Inr (Daily_Cost df) = map (\<lambda>c. round_2 (fmul c (dbl 100))) (cost_per_m3 lead)"
    by blast
  have "cost_per_m3 lead = dbl (8 / 10) # [dbl (15 / 10), dbl (22 / 10)]"
    by (simp add: lead_def)
  with m have "map Inr (Daily_Cost df)
      = round_2 (fmul (dbl (8 / 10)) (dbl 100))
        # map (\<lambda>c. round_2 (fmul c (dbl 100))) [dbl (15 / 10), dbl (22 / 10)]"
    by (simp only: list.map)
  then have "\<exists>rest. Daily_Cost df = dbl 80 # rest"
    unfolding round_2_80 by (cases "Daily_Cost df") auto
  with r show ?thesis by blast
qed

end
